theory Spec2Isabelle
  imports Main "HOL-Library.Word" "HOL-Library.Sublist"
begin

section \<open>The Task State Store\<close>

text \<open>
  One row of the \<open>tasks\<close> table, with the columns the orchestrator of
  \<open>app/api/tasks/[taskId]/execute/route.ts\<close> reads and writes.
\<close>

datatype status = Pending | Processing | Completed | Error | Stopped

record task =
  userId :: string
  status :: status
  progress :: nat
  branchName :: "string option"
  error :: "string option"
  sandboxId :: "string option"
  sandboxUrl :: "string option"

text \<open>JavaScript strings are sequences of UTF-16 code units; log lines, branch names
  and error messages are kept as plain strings.\<close>

type_synonym jsstring = "16 word list"

text \<open>Truthiness of a string and of a nullable string (\<open>if (s)\<close>, \<open>a || b\<close>).\<close>

definition truthy :: "'a list \<Rightarrow> bool" where
  "truthy s = (s \<noteq> [])"

definition truthyOpt :: "'a list option \<Rightarrow> bool" where
  "truthyOpt s = (case s of None \<Rightarrow> False | Some v \<Rightarrow> truthy v)"

definition orElse :: "'a list option \<Rightarrow> 'a list option \<Rightarrow> 'a list option" where
  "orElse a b = (if truthyOpt a then a else b)"

text \<open>\<open>String.prototype.includes\<close>.\<close>

fun includes_str :: "string \<Rightarrow> string \<Rightarrow> bool" where
  "includes_str [] n = (n = [])"
| "includes_str (c # cs) n = (prefix n (c # cs) \<or> includes_str cs n)"

text \<open>The decimal rendering of a non-negative integer in a template literal.\<close>

fun showNat :: "nat \<Rightarrow> string" where
  "showNat n = (if n < 10 then [char_of (48 + n)] else showNat (n div 10) @ [char_of (48 + n mod 10)])"

declare showNat.simps [simp del]

section \<open>Concurrent writers, timers and the run's configuration\<close>

text \<open>
  The pipeline runs detached; while it awaits, other request handlers write the same row.
  \<open>StopRequest\<close> is the \<open>PATCH\<close> handler with \<open>action: "stop"\<close>
  (it answers 400 unless the status is \<open>processing\<close>, and otherwise
  \<open>stopTaskExecution\<close> sets \<open>stopped\<close> and the error text);
  \<open>BranchNameGenerated\<close> is the name generation capability storing its result.
\<close>

datatype ext_write = StopRequest | BranchNameGenerated string

datatype thrown = ErrorObj string | NonError

datatype 'a outcome = Returns 'a | Throws thrown

datatype callback = WarnCallback | RejectCallback string

datatype timer = Timer (handle: nat) (due: nat) (callback: callback)

datatype race = NotRacing | Racing nat | Settled

datatype event =
    Log string
  | StatusWritten status string
  | ProgressWritten nat
  | BranchNameWritten string
  | StopRejected
  | TimerFired callback
  | Rethrown
  | InsertMessageCalled
  | DetectPortCalled
  | CreateSandboxCalled "string option"
  | ShutdownSandboxCalled
  | RowUpdated "string option"
  | ExecuteAgentCalled jsstring
  | GenerateCommitMessageCalled
  | PushChangesCalled string string
  | BranchNamePolled nat
  | FetchConnectorsCalled
  | ProcessTaskReturned

record config =
  row :: task
  now :: nat
  timers :: "timer list"
  nextHandle :: nat
  race :: race
  trace :: "event list"

definition emit :: "event \<Rightarrow> config \<Rightarrow> config" where
  "emit e c = c\<lparr>trace := trace c @ [e]\<rparr>"

text \<open>
  Modelled from the spec: the task logger (\<open>lib/utils/task-logger\<close>) is not among
  the sources. \<open>info\<close>, \<open>success\<close> and \<open>error\<close> append a log line and never
  fail the pipeline; \<open>updateStatus\<close> and \<open>updateProgress\<close> are the store's
  update-fields operation: an unconditional write, with no compare-and-swap on the status
  (spec, sections 4.3, 7 and 9).
\<close>

definition logI :: "string \<Rightarrow> config \<Rightarrow> config" where
  "logI m c = emit (Log m) c"

definition writeStatus :: "status \<Rightarrow> string \<Rightarrow> config \<Rightarrow> config" where
  "writeStatus st m c =
     emit (StatusWritten st m)
       (c\<lparr>row := (row c)\<lparr>status := st, error := (if st = Error then Some m else error (row c))\<rparr>\<rparr>)"

definition writeProgress :: "nat \<Rightarrow> config \<Rightarrow> config" where
  "writeProgress n c = emit (ProgressWritten n) (c\<lparr>row := (row c)\<lparr>progress := n\<rparr>\<rparr>)"

text \<open>The \<open>PATCH\<close> stop handler and the name generator, as writers of the row.\<close>

definition applyWrite :: "ext_write \<Rightarrow> config \<Rightarrow> config" where
  "applyWrite x c =
     (case x of
        StopRequest \<Rightarrow>
          if status (row c) \<noteq> Processing then emit StopRejected c
          else emit (StatusWritten Stopped ''Task was stopped by user'')
                 (c\<lparr>row := (row c)\<lparr>status := Stopped, error := Some ''Task was stopped by user''\<rparr>\<rparr>)
      | BranchNameGenerated n \<Rightarrow>
          emit (BranchNameWritten n) (c\<lparr>row := (row c)\<lparr>branchName := Some n\<rparr>\<rparr>))"

fun applyWrites :: "ext_write list \<Rightarrow> config \<Rightarrow> config" where
  "applyWrites [] c = c"
| "applyWrites (x # xs) c = applyWrites xs (applyWrite x c)"

subsection \<open>setTimeout, clearTimeout and the callbacks of processTaskWithTimeout\<close>

definition setTimeout :: "callback \<Rightarrow> nat \<Rightarrow> config \<Rightarrow> nat \<times> config" where
  "setTimeout cb delay c =
     (nextHandle c,
      c\<lparr>timers := timers c @ [Timer (nextHandle c) (now c + delay) cb],
        nextHandle := Suc (nextHandle c)\<rparr>)"

definition clearTimeout :: "nat \<Rightarrow> config \<Rightarrow> config" where
  "clearTimeout h c = c\<lparr>timers := filter (\<lambda>t. handle t \<noteq> h) (timers c)\<rparr>"

text \<open>
  The \<open>catch\<close> block of \<open>processTaskWithTimeout\<close> (lines 262 to 271). It runs when the
  race rejects; \<open>processTask\<close> catches everything it raises, so the only rejection is the
  deadline timer's. Its log line and its status write are taken as one step: no
  concurrent write is placed between them.
\<close>

definition timeoutCatch :: "nat \<Rightarrow> thrown \<Rightarrow> config \<Rightarrow> config" where
  "timeoutCatch warningTimeout err c =
     (let c1 = clearTimeout warningTimeout c in
      if (case err of ErrorObj m \<Rightarrow> includes_str m ''timed out after'' | NonError \<Rightarrow> False)
      then writeStatus Error ''Task execution timed out. The operation took too long to complete.''
             (logI ''Task execution timed out'' c1)
      else emit Rethrown c1)"

text \<open>
  A timer's callback. The warning callback logs one line. The deadline callback rejects
  \<open>timeoutPromise\<close>: while the race is open that settles it and runs the \<open>catch\<close>
  block; once the race has settled the rejection has no listener left and is dropped.
\<close>

definition runCallback :: "timer \<Rightarrow> config \<Rightarrow> config" where
  "runCallback t c =
     (let c1 = emit (TimerFired (callback t)) c in
      case callback t of
        WarnCallback \<Rightarrow> logI ''Task is approaching timeout, will complete soon'' c1
      | RejectCallback m \<Rightarrow>
          (case race c1 of
             Racing wh \<Rightarrow> timeoutCatch wh (ErrorObj m) (c1\<lparr>race := Settled\<rparr>)
           | NotRacing \<Rightarrow> c1
           | Settled \<Rightarrow> c1))"

text \<open>The event loop fires the timers that are due, oldest registration first; a timer
  cleared by an earlier callback of the same round no longer fires.\<close>

fun fireList :: "timer list \<Rightarrow> config \<Rightarrow> config" where
  "fireList [] c = c"
| "fireList (t # ts) c =
     fireList ts (if t \<in> set (timers c)
                  then runCallback t (c\<lparr>timers := removeAll t (timers c)\<rparr>)
                  else c)"

definition fireDue :: "config \<Rightarrow> config" where
  "fireDue c = fireList (filter (\<lambda>t. due t \<le> now c) (timers c)) c"

text \<open>
  One await of the pipeline: \<open>d\<close> milliseconds pass, the concurrent writes \<open>ws\<close> land,
  and the timers that have become due fire.
\<close>

definition tickFor :: "nat \<Rightarrow> ext_write list \<Rightarrow> config \<Rightarrow> config" where
  "tickFor d ws c = fireDue (applyWrites ws (c\<lparr>now := now c + d\<rparr>))"

text \<open>When nothing else is left to run, the event loop waits for the remaining timers.\<close>

definition drainTimers :: "config \<Rightarrow> config" where
  "drainTimers c = fireDue (c\<lparr>now := fold (\<lambda>t m. max (due t) m) (timers c) (now c)\<rparr>)"

section \<open>The outside world of one run\<close>

text \<open>
  The places where the pipeline awaits. At each of them the schedule of a run says how
  long the await took and which concurrent writes landed meanwhile.
\<close>

datatype checkpoint =
  BeforeExecution | AfterBranchWait | AfterSandboxCreation | BeforeAgent | AgentFailed

datatype site =
    AfterStatusWrite status
  | AfterProgressWrite nat
  | DuringInsertMessage
  | DuringStopCheck checkpoint
  | DuringPoll nat
  | DuringSleep nat
  | DuringDetectPort
  | DuringCreateSandbox
  | DuringShutdown
  | DuringRowUpdate
  | DuringConnectors
  | DuringExecuteAgent
  | DuringFinalRead
  | DuringGenerateCommitMessage
  | DuringPush

text \<open>Results of the collaborators that are called through their interface only.\<close>

record sandboxResult =
  success :: bool
  sandbox :: "string option"
  domain :: "string option"
  sbBranchName :: "string option"
  cancelled :: bool
  sbError :: "string option"

record agentResult =
  agSuccess :: bool
  agError :: "string option"
  agOutput :: "jsstring option"
  agentResponse :: "jsstring option"

record pushResult =
  pushSuccess :: bool
  pushFailed :: bool

record world =
  schedule :: "site \<Rightarrow> nat \<times> ext_write list"
  readThrows :: "site \<Rightarrow> thrown option"
  detectPortFromRepo :: "nat outcome"
  createSandbox :: "sandboxResult outcome"
  createSandboxProgress :: "nat list"
  rowUpdateThrows :: "thrown option"
  connectors :: "nat outcome"
  executeAgentInSandbox :: "agentResult outcome"
  generateCommitMessage :: "string outcome"
  createFallbackCommitMessage :: "jsstring \<Rightarrow> string"
  pushChangesToBranch :: "pushResult outcome"

text \<open>The parameters of \<open>processTask\<close> that decide its control flow (the model, the
  install flag and the API keys are only handed on to the collaborators).\<close>

record args =
  taskId :: string
  prompt :: jsstring
  repoUrl :: string
  maxDuration :: nat
  selectedAgent :: string
  keepAlive :: bool
  githubToken :: "string option"
  argUserId :: "string option"

definition tick :: "world \<Rightarrow> site \<Rightarrow> config \<Rightarrow> config" where
  "tick w s c = tickFor (fst (schedule w s)) (snd (schedule w s)) c"

text \<open>\<open>await new Promise((resolve) => setTimeout(resolve, ms))\<close>: at least \<open>ms\<close>.\<close>

definition sleep :: "world \<Rightarrow> nat \<Rightarrow> site \<Rightarrow> config \<Rightarrow> config" where
  "sleep w ms s c = tickFor (ms + fst (schedule w s)) (snd (schedule w s)) c"

definition updateStatus :: "world \<Rightarrow> status \<Rightarrow> string \<Rightarrow> config \<Rightarrow> config" where
  "updateStatus w st m c = tick w (AfterStatusWrite st) (writeStatus st m c)"

definition updateProgress :: "world \<Rightarrow> nat \<Rightarrow> config \<Rightarrow> config" where
  "updateProgress w n c = tick w (AfterProgressWrite n) (writeProgress n c)"

text \<open>\<open>db.select().from(tasks).where(eq(tasks.id, taskId))\<close>: the row, or a rejection.\<close>

definition db_select :: "world \<Rightarrow> site \<Rightarrow> config \<Rightarrow> task option outcome" where
  "db_select w s c = (case readThrows w s of Some e \<Rightarrow> Throws e | None \<Rightarrow> Returns (Some (row c)))"

section \<open>The cancellation check and the branch-name wait\<close>

definition isTaskStopped :: "world \<Rightarrow> checkpoint \<Rightarrow> config \<Rightarrow> bool \<times> config" where
  "isTaskStopped w cp c =
     ((case db_select w (DuringStopCheck cp) c of
         Returns t \<Rightarrow> (case t of Some r \<Rightarrow> status r = Stopped | None \<Rightarrow> False)
       | Throws e \<Rightarrow> False),
      tick w (DuringStopCheck cp) c)"

lemma now_emit [simp]: "now (emit e c) = now c"
  by (simp add: emit_def)

lemma now_applyWrite [simp]: "now (applyWrite x c) = now c"
  by (simp add: applyWrite_def split: ext_write.splits)

lemma now_applyWrites [simp]: "now (applyWrites xs c) = now c"
  by (induction xs arbitrary: c) simp_all

lemma now_runCallback [simp]: "now (runCallback t c) = now c"
  by (simp add: runCallback_def timeoutCatch_def clearTimeout_def writeStatus_def logI_def Let_def
           split: callback.splits race.splits thrown.splits)

lemma now_fireList [simp]: "now (fireList ts c) = now c"
  by (induction ts arbitrary: c) simp_all

lemma now_tickFor [simp]: "now (tickFor d ws c) = now c + d"
  by (simp add: tickFor_def fireDue_def)

function waitLoop :: "world \<Rightarrow> nat \<Rightarrow> nat \<Rightarrow> nat \<Rightarrow> config \<Rightarrow> string option \<times> config" where
  "waitLoop w startTime maxWaitMs i c =
     (if now c - startTime < maxWaitMs then
        (let found = (case db_select w (DuringPoll i) c of
                        Returns t \<Rightarrow>
                          (case t of
                             Some r \<Rightarrow> (if truthyOpt (branchName r) then branchName r else None)
                           | None \<Rightarrow> None)
                      | Throws e \<Rightarrow> None);
             c1 = tick w (DuringPoll i) (emit (BranchNamePolled i) c)
         in case found of
              Some n \<Rightarrow> (Some n, c1)
            | None \<Rightarrow> waitLoop w startTime maxWaitMs (Suc i) (sleep w 500 (DuringSleep i) c1))
      else (None, c))"
  by pat_completeness auto
termination
  by (relation "measure (\<lambda>(w, startTime, maxWaitMs, i, c). startTime + maxWaitMs - now c)")
     (auto simp: tick_def sleep_def)

declare waitLoop.simps [simp del]

definition waitForBranchName :: "world \<Rightarrow> nat \<Rightarrow> config \<Rightarrow> string option \<times> config" where
  "waitForBranchName w maxWaitMs c = waitLoop w (now c) maxWaitMs 0 c"

section \<open>Prompt sanitization\<close>

text \<open>
  Line 483: \<open>prompt.replace(/`/g, "'").replace(/\$/g, '').replace(/\\/g, '').replace(/^-/gm, ' -')\<close>.
  With the \<open>m\<close> flag, \<open>^\<close> matches at the start of the input and right after a line
  terminator (LF, CR, U+2028, U+2029).
\<close>

definition isLineTerminator :: "16 word \<Rightarrow> bool" where
  "isLineTerminator c = (c = 0x0A \<or> c = 0x0D \<or> c = 0x2028 \<or> c = 0x2029)"

definition replaceBackticks :: "jsstring \<Rightarrow> jsstring" where
  "replaceBackticks s = map (\<lambda>c. if c = 0x60 then 0x27 else c) s"

definition removeChar :: "16 word \<Rightarrow> jsstring \<Rightarrow> jsstring" where
  "removeChar x s = filter (\<lambda>c. c \<noteq> x) s"

fun padLeadingDash :: "bool \<Rightarrow> jsstring \<Rightarrow> jsstring" where
  "padLeadingDash atLineStart [] = []"
| "padLeadingDash atLineStart (c # cs) =
     (if atLineStart \<and> c = 0x2D then [0x20, 0x2D] else [c]) @ padLeadingDash (isLineTerminator c) cs"

definition sanitizePrompt :: "jsstring \<Rightarrow> jsstring" where
  "sanitizePrompt p = padLeadingDash True (removeChar 0x5C (removeChar 0x24 (replaceBackticks p)))"

text \<open>A line of \<open>s\<close> begins with \<open>-\<close>: the flag says whether the position is a line start.\<close>

fun lineBeginsWithDash :: "bool \<Rightarrow> jsstring \<Rightarrow> bool" where
  "lineBeginsWithDash atLineStart [] = False"
| "lineBeginsWithDash atLineStart (c # cs) =
     ((atLineStart \<and> c = 0x2D) \<or> lineBeginsWithDash (isLineTerminator c) cs)"

section \<open>processTask\<close>

datatype 'a flow = Next 'a | Return | Throw thrown

definition orDefault :: "string option \<Rightarrow> string \<Rightarrow> string" where
  "orDefault a d = (case a of None \<Rightarrow> d | Some v \<Rightarrow> if truthy v then v else d)"

text \<open>\<open>shutdownSandbox\<close> is always called inside \<open>try { ... } catch { }\<close>.\<close>

definition shutdownSandbox :: "world \<Rightarrow> config \<Rightarrow> config" where
  "shutdownSandbox w c = tick w DuringShutdown (emit ShutdownSandboxCalled c)"

text \<open>Lines 327 to 354.\<close>

definition processTask_start :: "world \<Rightarrow> args \<Rightarrow> config \<Rightarrow> unit flow \<times> config" where
  "processTask_start w a c =
     (let c1 = updateStatus w Processing ''Task created, preparing to start...'' c;
          c2 = updateProgress w 10 c1;
          c3 = tick w DuringInsertMessage (emit InsertMessageCalled c2);
          c4 = logI (if truthyOpt (githubToken a) then ''Using authenticated GitHub access''
                     else if truthy (repoUrl a)
                     then ''No GitHub token available, attempting unauthenticated access''
                     else ''Running in standalone mode (no repository)'') c3;
          c5 = logI ''API keys configured for selected agent'' c4
      in case isTaskStopped w BeforeExecution c5 of
           (True, c6) \<Rightarrow> (Return, logI ''Task was stopped before execution began'' c6)
         | (False, c6) \<Rightarrow> (Next (), c6))"

text \<open>Lines 356 to 367.\<close>

definition processTask_branch :: "world \<Rightarrow> config \<Rightarrow> string option flow \<times> config" where
  "processTask_branch w c =
     (case waitForBranchName w 10000 c of
        (aiBranchName, c1) \<Rightarrow>
          (case isTaskStopped w AfterBranchWait c1 of
             (True, c2) \<Rightarrow> (Return, logI ''Task was stopped during branch name generation'' c2)
           | (False, c2) \<Rightarrow>
               (Next aiBranchName,
                logI (if truthyOpt aiBranchName then ''Using AI-generated branch name''
                      else ''AI branch name not ready, will use fallback during sandbox creation'') c2)))"

text \<open>Line 372.\<close>

definition detectPort :: "world \<Rightarrow> args \<Rightarrow> config \<Rightarrow> nat outcome \<times> config" where
  "detectPort w a c =
     (if truthy (repoUrl a)
      then (detectPortFromRepo w, tick w DuringDetectPort (emit DetectPortCalled c))
      else (Returns 3000, c))"

text \<open>Lines 375 to 401: \<open>preDeterminedBranchName: aiBranchName || undefined\<close>; the progress
  callback writes what the adapter reports.\<close>

definition callCreateSandbox :: "world \<Rightarrow> string option \<Rightarrow> config \<Rightarrow> sandboxResult outcome \<times> config" where
  "callCreateSandbox w aiBranchName c =
     (createSandbox w,
      tick w DuringCreateSandbox
        (fold writeProgress (createSandboxProgress w)
           (emit (CreateSandboxCalled (orElse aiBranchName None)) c)))"

text \<open>Lines 426 to 436: a field of \<open>updateData\<close> that is \<open>undefined\<close> is not written.\<close>

definition recordSandbox :: "world \<Rightarrow> string option \<Rightarrow> sandboxResult \<Rightarrow> config \<Rightarrow> unit outcome \<times> config" where
  "recordSandbox w aiBranchName r c =
     (let written = (if \<not> truthyOpt aiBranchName then sbBranchName r else None) in
      case rowUpdateThrows w of
        Some e \<Rightarrow> (Throws e, tick w DuringRowUpdate c)
      | None \<Rightarrow>
          (Returns (),
           tick w DuringRowUpdate
             (emit (RowUpdated written)
                (c\<lparr>row := (row c)\<lparr>
                     sandboxId := (if truthyOpt (sandbox r) then sandbox r else sandboxId (row c)),
                     sandboxUrl := (if truthyOpt (domain r) then domain r else sandboxUrl (row c)),
                     branchName := (case written of None \<Rightarrow> branchName (row c) | Some b \<Rightarrow> Some b)\<rparr>\<rparr>))))"

text \<open>Lines 369 to 441. The second component is the local variable \<open>sandbox\<close>, which the
  \<open>catch\<close> block of \<open>processTask\<close> reads.\<close>

definition processTask_sandbox ::
  "world \<Rightarrow> args \<Rightarrow> string option \<Rightarrow> config \<Rightarrow> (string option \<times> string option) flow \<times> string option \<times> config" where
  "processTask_sandbox w a aiBranchName c =
     (case detectPort w a (updateProgress w 15 c) of
        (Throws e, c1) \<Rightarrow> (Throw e, None, c1)
      | (Returns port, c1) \<Rightarrow>
          (case callCreateSandbox w aiBranchName c1 of
             (Throws e, c2) \<Rightarrow> (Throw e, None, c2)
           | (Returns r, c2) \<Rightarrow>
               if \<not> success r then
                 (if cancelled r
                  then (Return, None, logI ''Task was cancelled during sandbox creation'' c2)
                  else (Throw (ErrorObj (orDefault (sbError r) ''Failed to create sandbox'')), None, c2))
               else
                 (case isTaskStopped w AfterSandboxCreation c2 of
                    (True, c3) \<Rightarrow>
                      (let c4 = logI ''Task was stopped during sandbox creation'' c3
                       in (Return, None, if sandbox r \<noteq> None then shutdownSandbox w c4 else c4))
                  | (False, c3) \<Rightarrow>
                      (case recordSandbox w aiBranchName r c3 of
                         (Throws e, c4) \<Rightarrow> (Throw e, sandbox r, c4)
                       | (Returns u, c4) \<Rightarrow>
                           (case isTaskStopped w BeforeAgent c4 of
                              (True, c5) \<Rightarrow>
                                (Return, sandbox r, logI ''Task was stopped before agent execution'' c5)
                            | (False, c5) \<Rightarrow> (Next (sandbox r, sbBranchName r), sandbox r, c5))))))"

text \<open>Lines 452 to 481, all inside one \<open>try\<close>/\<open>catch\<close>.\<close>

definition fetchConnectors :: "world \<Rightarrow> args \<Rightarrow> config \<Rightarrow> config" where
  "fetchConnectors w a c =
     (if truthyOpt (argUserId a) then
        (let c1 = tick w DuringConnectors (emit FetchConnectorsCalled c) in
         case connectors w of
           Returns n \<Rightarrow> if n > 0 then logI ''Found connected MCP servers'' c1 else c1
         | Throws e \<Rightarrow> logI ''Warning: Could not fetch MCP servers, continuing without them'' c1)
      else c)"

text \<open>Lines 443 to 508.\<close>

definition processTask_agent :: "world \<Rightarrow> args \<Rightarrow> string option \<Rightarrow> config \<Rightarrow> agentResult flow \<times> config" where
  "processTask_agent w a sb c =
     (let c1 = updateProgress w 50 c in
      if sb = None then (Throw (ErrorObj ''Sandbox is not available for agent execution''), c1)
      else
        (let c2 = fetchConnectors w a c1;
             c3 = tick w DuringExecuteAgent (emit (ExecuteAgentCalled (sanitizePrompt (prompt a))) c2)
         in case executeAgentInSandbox w of
              Throws e \<Rightarrow> (Throw e, c3)
            | Returns r \<Rightarrow>
                if \<not> agSuccess r then
                  (case isTaskStopped w AgentFailed c3 of
                     (True, c4) \<Rightarrow> (Return, logI ''Agent execution was stopped'' c4)
                   | (False, c4) \<Rightarrow> (Throw (ErrorObj (orDefault (agError r) ''Agent execution failed'')), c4))
                else (Next r, c3)))"

text \<open>Lines 518 to 538.\<close>

definition publish :: "world \<Rightarrow> args \<Rightarrow> agentResult \<Rightarrow> string \<Rightarrow> config \<Rightarrow> unit outcome \<times> config" where
  "publish w a r finalBranchName c =
     (if truthy (repoUrl a) \<and> truthyOpt (githubToken a) then
        (let commitDescription =
               (case orElse (orElse (agentResponse r) (agOutput r)) (Some (prompt a)) of
                  Some d \<Rightarrow> d | None \<Rightarrow> []);
             c1 = tick w DuringGenerateCommitMessage (emit GenerateCommitMessageCalled c);
             commitMessage = (case generateCommitMessage w of
                                Returns m \<Rightarrow> m
                              | Throws e \<Rightarrow> createFallbackCommitMessage w commitDescription);
             c2 = tick w DuringPush (emit (PushChangesCalled finalBranchName commitMessage) c1)
         in case pushChangesToBranch w of
              Throws e \<Rightarrow> (Throws e, c2)
            | Returns pr \<Rightarrow>
                (Returns (),
                 if pushSuccess pr \<and> \<not> pushFailed pr then logI ''Changes pushed to branch'' c2
                 else if pushFailed pr
                 then logI ''Changes committed locally but could not be pushed to remote'' c2
                 else c2))
      else (Returns (), c))"

text \<open>Lines 510 to 551.\<close>

definition processTask_finish ::
  "world \<Rightarrow> args \<Rightarrow> string option \<Rightarrow> string option \<Rightarrow> agentResult \<Rightarrow> config \<Rightarrow> unit flow \<times> config" where
  "processTask_finish w a sb sandboxBranch r c =
     (let c1 = updateProgress w 90 (logI ''Agent completed work'' c);
          c2 = tick w DuringFinalRead c1
      in case db_select w DuringFinalRead c1 of
           Throws e \<Rightarrow> (Throw e, c2)
         | Returns currentTask \<Rightarrow>
             (let finalBranchName =
                    orDefault (orElse (case currentTask of Some t \<Rightarrow> branchName t | None \<Rightarrow> None)
                                 sandboxBranch)
                      (''ai-agent-'' @ taskId a)
              in case publish w a r finalBranchName c2 of
                   (Throws e, c3) \<Rightarrow> (Throw e, c3)
                 | (Returns u, c3) \<Rightarrow>
                     (let c4 = updateProgress w 100 c3;
                          c5 = updateStatus w Completed ''Task completed successfully'' c4
                      in (Next (),
                          if \<not> keepAlive a \<and> sb \<noteq> None
                          then shutdownSandbox w (logI ''Shutting down sandbox'' c5)
                          else c5))))"

text \<open>The body of the \<open>try\<close> block, lines 327 to 551.\<close>

definition processTask_try :: "world \<Rightarrow> args \<Rightarrow> config \<Rightarrow> unit flow \<times> string option \<times> config" where
  "processTask_try w a c =
     (case processTask_start w a c of
        (Return, c1) \<Rightarrow> (Return, None, c1)
      | (Throw e, c1) \<Rightarrow> (Throw e, None, c1)
      | (Next u, c1) \<Rightarrow>
          (case processTask_branch w c1 of
             (Return, c2) \<Rightarrow> (Return, None, c2)
           | (Throw e, c2) \<Rightarrow> (Throw e, None, c2)
           | (Next aiBranchName, c2) \<Rightarrow>
               (case processTask_sandbox w a aiBranchName c2 of
                  (Return, sb, c3) \<Rightarrow> (Return, sb, c3)
                | (Throw e, sb, c3) \<Rightarrow> (Throw e, sb, c3)
                | (Next (sb', sandboxBranch), sb, c3) \<Rightarrow>
                    (case processTask_agent w a sb c3 of
                       (Return, c4) \<Rightarrow> (Return, sb, c4)
                     | (Throw e, c4) \<Rightarrow> (Throw e, sb, c4)
                     | (Next r, c4) \<Rightarrow>
                         (case processTask_finish w a sb sandboxBranch r c4 of
                            (fl, c5) \<Rightarrow> (fl, sb, c5))))))"

text \<open>\<open>error instanceof Error ? error.message : 'An unexpected error occurred'\<close>.\<close>

definition genericErrorMessage :: "thrown \<Rightarrow> string" where
  "genericErrorMessage e = (case e of ErrorObj m \<Rightarrow> m | NonError \<Rightarrow> ''An unexpected error occurred'')"

text \<open>The \<open>catch\<close> block, lines 552 to 563.\<close>

definition processTask_catch :: "world \<Rightarrow> thrown \<Rightarrow> string option \<Rightarrow> config \<Rightarrow> config" where
  "processTask_catch w e sb c =
     (let c1 = logI ''Task failed'' c;
          c2 = updateStatus w Error (genericErrorMessage e) c1
      in if sb \<noteq> None then shutdownSandbox w c2 else c2)"

definition processTask :: "world \<Rightarrow> args \<Rightarrow> config \<Rightarrow> config" where
  "processTask w a c =
     (case processTask_try w a c of
        (Throw e, sb, c1) \<Rightarrow> emit ProcessTaskReturned (processTask_catch w e sb c1)
      | (Return, sb, c1) \<Rightarrow> emit ProcessTaskReturned c1
      | (Next u, sb, c1) \<Rightarrow> emit ProcessTaskReturned c1)"

section \<open>processTaskWithTimeout\<close>

definition timeoutMessage :: "nat \<Rightarrow> string" where
  "timeoutMessage minutes = ''Task execution timed out after '' @ showNat minutes @ '' minutes''"

text \<open>
  Lines 225 to 241: the two timers. \<open>Math.max(TASK_TIMEOUT_MS - 60 * 1000, 0)\<close> is the
  truncated difference. The handle of the warning timer is kept in \<open>warningTimeout\<close>;
  the handle of the deadline timer is dropped.
\<close>

definition startTimers :: "args \<Rightarrow> config \<Rightarrow> nat \<times> config" where
  "startTimers a c =
     (let TASK_TIMEOUT_MS = maxDuration a * 60 * 1000;
          warningTimeMs = max (TASK_TIMEOUT_MS - 60 * 1000) 0
      in case setTimeout WarnCallback warningTimeMs c of
           (warningTimeout, c1) \<Rightarrow>
             (warningTimeout,
              snd (setTimeout (RejectCallback (timeoutMessage (maxDuration a))) TASK_TIMEOUT_MS c1)))"

text \<open>
  Line 261: the pipeline's side of the race. When \<open>processTask\<close> returns while the race
  is open, the race resolves and the warning timer is cleared. When the deadline callback
  has settled the race before, its \<open>catch\<close> block has run at that moment and nothing is
  left to do here.
\<close>

definition pipelineSettles :: "nat \<Rightarrow> config \<Rightarrow> config" where
  "pipelineSettles warningTimeout c =
     (case race c of
        Racing h \<Rightarrow> clearTimeout warningTimeout (c\<lparr>race := Settled\<rparr>)
      | Settled \<Rightarrow> c
      | NotRacing \<Rightarrow> c)"

text \<open>
  Lines 243 to 271. \<open>Promise.race\<close> settles with whichever side is first and does not
  stop the other: the pipeline runs to its end also after the deadline callback has run.
\<close>

definition processTaskWithTimeout :: "world \<Rightarrow> args \<Rightarrow> config \<Rightarrow> config" where
  "processTaskWithTimeout w a c =
     (case startTimers a c of
        (warningTimeout, c2) \<Rightarrow>
          pipelineSettles warningTimeout (processTask w a (c2\<lparr>race := Racing warningTimeout\<rparr>)))"

section \<open>The Trigger Endpoint\<close>

record request =
  secretHeader :: "string option"
  body :: "string option outcome"

record server =
  INTERNAL_API_SECRET :: "string option"
  fetchTask :: "task option outcome"
  credentialsThrow :: bool

datatype response = Response (code: nat) (scheduled: bool)

definition verifyInternalCall :: "server \<Rightarrow> request \<Rightarrow> bool" where
  "verifyInternalCall sv rq = (truthyOpt (secretHeader rq) \<and> secretHeader rq = INTERNAL_API_SECRET sv)"

text \<open>Lines 38 to 204; \<open>scheduled\<close> says whether \<open>after(...)\<close> was reached.\<close>

definition POST :: "server \<Rightarrow> request \<Rightarrow> response" where
  "POST sv rq =
     (case body rq of
        Throws e \<Rightarrow> Response 500 False
      | Returns userId' \<Rightarrow>
          if \<not> verifyInternalCall sv rq \<and> \<not> truthyOpt userId' then Response 401 False
          else
            (case fetchTask sv of
               Throws e \<Rightarrow> Response 500 False
             | Returns None \<Rightarrow> Response 404 False
             | Returns (Some t) \<Rightarrow>
                 if truthyOpt userId' \<and> Some (userId t) \<noteq> userId' then Response 401 False
                 else if status t \<noteq> Pending then Response 400 False
                 else if credentialsThrow sv then Response 500 False
                 else Response 200 True))"

definition authorizedFor :: "server \<Rightarrow> request \<Rightarrow> task \<Rightarrow> bool" where
  "authorizedFor sv rq t =
     (case body rq of
        Throws e \<Rightarrow> False
      | Returns uid \<Rightarrow>
          (verifyInternalCall sv rq \<or> truthyOpt uid) \<and> (if truthyOpt uid then uid = Some (userId t) else True))"

section \<open>Encryption of stored secrets (lib/crypto.ts)\<close>

text \<open>
  \<open>Buffer.toString('hex')\<close> writes two lower-case digits per byte;
  \<open>Buffer.from(s, 'hex')\<close> reads pairs of hex digits and stops at the first pair that
  is not one. Node's \<open>crypto\<close> ciphers and the UTF-8 codec of \<open>Buffer\<close> are not
  code of this repository: they are the fields of \<open>cryptoLib\<close>, and \<open>randomBytes\<close>
  is the argument \<open>iv\<close>. A decipher that throws is \<open>None\<close>.
\<close>

type_synonym bytes = "8 word list"

definition hexDigit :: "nat \<Rightarrow> char" where
  "hexDigit n = (if n < 10 then char_of (48 + n) else char_of (87 + n))"

definition hexVal :: "char \<Rightarrow> nat option" where
  "hexVal c =
     (let k = (of_char c :: nat) in
      if 48 \<le> k \<and> k \<le> 57 then Some (k - 48)
      else if 97 \<le> k \<and> k \<le> 102 then Some (k - 87)
      else if 65 \<le> k \<and> k \<le> 70 then Some (k - 55)
      else None)"

fun toHex :: "bytes \<Rightarrow> string" where
  "toHex [] = []"
| "toHex (b # bs) = hexDigit (unat b div 16) # hexDigit (unat b mod 16) # toHex bs"

fun fromHex :: "string \<Rightarrow> bytes" where
  "fromHex (a # b # rest) =
     (case hexVal a of
        None \<Rightarrow> []
      | Some x \<Rightarrow> (case hexVal b of None \<Rightarrow> [] | Some y \<Rightarrow> word_of_nat (16 * x + y) # fromHex rest))"
| "fromHex [a] = []"
| "fromHex [] = []"






section \<open>Observing a run\<close>

text \<open>The events a run appends to the trace, and the statuses it persists, in order.\<close>

definition newEvents :: "config \<Rightarrow> config \<Rightarrow> event list" where
  "newEvents c c' = drop (length (trace c)) (trace c')"

fun statusWrites :: "event list \<Rightarrow> status list" where
  "statusWrites [] = []"
| "statusWrites (StatusWritten st m # es) = st # statusWrites es"
| "statusWrites (e # es) = statusWrites es"

definition terminal :: "status \<Rightarrow> bool" where
  "terminal st = (st = Completed \<or> st = Error \<or> st = Stopped)"

fun lateOnly :: "event \<Rightarrow> bool" where
  "lateOnly (StatusWritten st m) = terminal st"
| "lateOnly e = True"


text \<open>Events that every step of a run may add: everything but a status write that is not
  terminal, a publication call, a poll of the branch-name wait, the call that creates the
  sandbox and the row update that follows it.\<close>

fun routine :: "event \<Rightarrow> bool" where
  "routine (StatusWritten st m) = (st = Completed \<or> st = Error \<or> st = Stopped)"
| "routine GenerateCommitMessageCalled = False"
| "routine (PushChangesCalled b m) = False"
| "routine (BranchNamePolled i) = False"
| "routine (CreateSandboxCalled b) = False"
| "routine (RowUpdated b) = False"
| "routine e = True"

definition extends :: "(event \<Rightarrow> bool) \<Rightarrow> config \<Rightarrow> config \<Rightarrow> bool" where
  "extends P c c' = (\<exists>es. trace c' = trace c @ es \<and> list_all P es)"

definition tickOK :: "(event \<Rightarrow> bool) \<Rightarrow> bool" where
  "tickOK P = (\<forall>e. routine e \<longrightarrow> P e)"

definition covers :: "(event \<Rightarrow> bool) \<Rightarrow> bool" where
  "covers P = (tickOK P \<and> (\<forall>i. P (BranchNamePolled i)) \<and>
               (\<forall>b. P (CreateSandboxCalled b)) \<and> (\<forall>b. P (RowUpdated b)))"

definition pubOK :: "(event \<Rightarrow> bool) \<Rightarrow> args \<Rightarrow> bool" where
  "pubOK P a =
     (if truthy (repoUrl a) \<and> truthyOpt (githubToken a)
      then P GenerateCommitMessageCalled \<and> (\<forall>b m. P (PushChangesCalled b m)) else True)"




text \<open>A run without concurrent writers, and collaborators that all succeed.\<close>

definition calm :: "world \<Rightarrow> bool" where
  "calm w = (\<forall>s. snd (schedule w s) = [])"



section \<open>Concrete runs\<close>

text \<open>A world in which every collaborator succeeds at once and nobody else writes the row.\<close>

definition quietWorld :: world where
  "quietWorld = \<lparr> schedule = (\<lambda>s. (0, [])), readThrows = (\<lambda>s. None),
     detectPortFromRepo = Returns 3000,
     createSandbox = Returns \<lparr>success = True, sandbox = Some ''sbx_1'', domain = Some ''https://sbx'',
        sbBranchName = Some ''agent/fallback-1'', cancelled = False, sbError = None\<rparr>,
     createSandboxProgress = [20, 40],
     rowUpdateThrows = None, connectors = Returns 0,
     executeAgentInSandbox = Returns \<lparr>agSuccess = True, agError = None, agOutput = None, agentResponse = None\<rparr>,
     generateCommitMessage = Returns ''feat: change'',
     createFallbackCommitMessage = (\<lambda>d. ''chore: update''),
     pushChangesToBranch = Returns \<lparr>pushSuccess = True, pushFailed = False\<rparr> \<rparr>"

definition pendingTask :: task where
  "pendingTask = \<lparr>userId = ''u1'', status = Pending, progress = 0, branchName = Some ''ai/name'', error = None,
     sandboxId = None, sandboxUrl = None\<rparr>"

definition startConfig :: "task \<Rightarrow> config" where
  "startConfig t = \<lparr>row = t, now = 0, timers = [], nextHandle = 0, race = NotRacing, trace = []\<rparr>"

definition repoArgs :: args where
  "repoArgs = \<lparr>taskId = ''T1'', prompt = [0x68, 0x69], repoUrl = ''https://github.com/o/r'', maxDuration = 5,
     selectedAgent = ''claude'', keepAlive = False, githubToken = Some ''tok'', argUserId = Some ''u1''\<rparr>"


text \<open>The stop request lands while the agent runs, and the agent call then rejects.\<close>

definition stopDuringAgent :: world where
  "stopDuringAgent = quietWorld\<lparr>
     schedule := (\<lambda>s. if s = DuringExecuteAgent then (30000, [StopRequest]) else (0, [])),
     executeAgentInSandbox := Throws (ErrorObj ''sandbox connection lost'')\<rparr>"

text \<open>The stop request lands while the sandbox is created, and creation then reports a
  failure that is not a cancellation.\<close>

definition stopDuringCreation :: world where
  "stopDuringCreation = quietWorld\<lparr>
     schedule := (\<lambda>s. if s = DuringCreateSandbox then (30000, [StopRequest]) else (0, [])),
     createSandbox := Returns \<lparr>success = False, sandbox = None, domain = None, sbBranchName = None,
        cancelled = False, sbError = Some ''Sandbox health check failed''\<rparr>\<rparr>"

text \<open>The agent call takes 400 seconds, longer than the budget of five minutes.\<close>

definition slowAgent :: world where
  "slowAgent = quietWorld\<lparr>schedule := (\<lambda>s. if s = DuringExecuteAgent then (400000, []) else (0, []))\<rparr>"


text \<open>The stop request lands before the first checkpoint, and every read of the store fails.\<close>

definition stoppedButUnreadable :: world where
  "stoppedButUnreadable = quietWorld\<lparr>
     schedule := (\<lambda>s. if s = AfterProgressWrite 10 then (0, [StopRequest]) else (0, [])),
     readThrows := (\<lambda>s. Some (ErrorObj ''connection refused''))\<rparr>"

definition ownerRequest :: request where
  "ownerRequest = \<lparr>secretHeader = None, body = Returns (Some ''u1'')\<rparr>"

definition serverWith :: "task \<Rightarrow> server" where
  "serverWith t = \<lparr>INTERNAL_API_SECRET = Some ''s3cret'', fetchTask = Returns (Some t),
     credentialsThrow = False\<rparr>"



section \<open>Lemmas\<close>

lemma includes_str_append: "includes_str (a @ n @ b) n"
  by (induction a) (auto simp: prefix_def intro: exI[of _ b] split: list.splits, (cases n; cases b; simp))

section \<open>How a run extends the trace\<close>

lemma extends_refl [simp]: "extends P c c"
  by (simp add: extends_def)

lemma extends_row_update [simp]: "extends P c0 (c\<lparr>row := r\<rparr>) = extends P c0 c"
  by (simp add: extends_def)


lemma ext_emit: "extends P c0 c \<Longrightarrow> P e \<Longrightarrow> extends P c0 (emit e c)"
  by (auto simp: extends_def emit_def)

lemma ext_logI: "extends P c0 c \<Longrightarrow> P (Log m) \<Longrightarrow> extends P c0 (logI m c)"
  by (simp add: logI_def ext_emit)

lemma ext_writeStatus: "extends P c0 c \<Longrightarrow> P (StatusWritten st m) \<Longrightarrow> extends P c0 (writeStatus st m c)"
  by (auto simp: extends_def emit_def writeStatus_def)

lemma ext_writeProgress: "extends P c0 c \<Longrightarrow> P (ProgressWritten n) \<Longrightarrow> extends P c0 (writeProgress n c)"
  by (auto simp: extends_def emit_def writeProgress_def)

lemma ext_applyWrite:
  assumes "\<And>e. routine e \<Longrightarrow> P e" "extends P c0 c"
  shows "extends P c0 (applyWrite x c)"
  using assms by (cases x) (auto simp: applyWrite_def extends_def emit_def)

lemma ext_applyWrites:
  assumes "\<And>e. routine e \<Longrightarrow> P e" "extends P c0 c"
  shows "extends P c0 (applyWrites xs c)"
  using assms(2) by (induction xs arbitrary: c) (simp_all add: ext_applyWrite assms(1))

lemma ext_runCallback:
  assumes "\<And>e. routine e \<Longrightarrow> P e" "extends P c0 c"
  shows "extends P c0 (runCallback t c)"
  using assms
  by (auto simp: runCallback_def timeoutCatch_def clearTimeout_def Let_def extends_def emit_def logI_def
        writeStatus_def split: callback.splits race.splits)

lemma ext_fireList:
  assumes "\<And>e. routine e \<Longrightarrow> P e" "extends P c0 c"
  shows "extends P c0 (fireList ts c)"
  using assms(2)
proof (induction ts arbitrary: c)
  case Nil
  then show ?case by simp
next
  case (Cons t ts)
  have "extends P c0 (c\<lparr>timers := removeAll t (timers c)\<rparr>)"
    using Cons.prems by (simp add: extends_def)
  then have "extends P c0 (runCallback t (c\<lparr>timers := removeAll t (timers c)\<rparr>))"
    using assms(1) by (intro ext_runCallback) auto
  with Cons show ?case by simp
qed

lemma ext_tickFor:
  assumes "\<And>e. routine e \<Longrightarrow> P e" "extends P c0 c"
  shows "extends P c0 (tickFor d ws c)"
proof -
  have "extends P c0 (c\<lparr>now := now c + d\<rparr>)"
    using assms(2) by (simp add: extends_def)
  then show ?thesis
    unfolding tickFor_def fireDue_def
    by (intro ext_fireList ext_applyWrites assms(1))
qed

lemma ext_tick:
  assumes "\<And>e. routine e \<Longrightarrow> P e" "extends P c0 c"
  shows "extends P c0 (tick w s c)"
  unfolding tick_def using assms by (rule ext_tickFor)

lemma ext_sleep:
  assumes "\<And>e. routine e \<Longrightarrow> P e" "extends P c0 c"
  shows "extends P c0 (sleep w ms s c)"
  unfolding sleep_def using assms by (rule ext_tickFor)

lemma ext_waitLoop:
  assumes "\<And>e. routine e \<Longrightarrow> P e" "\<And>k. i \<le> k \<Longrightarrow> P (BranchNamePolled k)" "extends P c0 c"
  shows "extends P c0 (snd (waitLoop w st mx i c))"
  using assms(2,3)
proof (induction w st mx i c rule: waitLoop.induct)
  case (1 w startTime maxWaitMs i c)
  have t: "extends P c0 (tick w (DuringPoll i) (emit (BranchNamePolled i) c))"
    by (intro ext_tick ext_emit assms(1) "1.prems") simp_all
  show ?case
  proof (cases "now c - startTime < maxWaitMs")
    case False
    then show ?thesis using "1.prems" by (subst waitLoop.simps) simp
  next
    case True
    show ?thesis
      apply (subst waitLoop.simps)
      using True t "1.IH" "1.prems"(1) assms(1)
      by (auto simp: Let_def ext_sleep split: option.splits)
  qed
qed

lemma tickOK_D: "tickOK P \<Longrightarrow> routine e \<Longrightarrow> P e"
  by (simp add: tickOK_def)

lemma covers_tickOK [simp]: "covers P \<Longrightarrow> tickOK P"
  by (simp add: covers_def)

lemma coversD: "covers P \<Longrightarrow> routine e \<Longrightarrow> P e"
  by (simp add: covers_def tickOK_def)

lemma cov_tick [simp]: "tickOK P \<Longrightarrow> extends P c0 c \<Longrightarrow> extends P c0 (tick w s c)"
  by (rule ext_tick) (auto simp: tickOK_def)

lemma cov_emit [simp]: "tickOK P \<Longrightarrow> routine e \<Longrightarrow> extends P c0 c \<Longrightarrow> extends P c0 (emit e c)"
  by (rule ext_emit) (auto simp: tickOK_def)

lemma cov_logI [simp]: "tickOK P \<Longrightarrow> extends P c0 c \<Longrightarrow> extends P c0 (logI m c)"
  by (rule ext_logI) (auto simp: tickOK_def)

lemma cov_updateProgress [simp]: "tickOK P \<Longrightarrow> extends P c0 c \<Longrightarrow> extends P c0 (updateProgress w n c)"
  unfolding updateProgress_def by (intro cov_tick ext_writeProgress) (auto simp: tickOK_def)

lemma cov_updateStatus [simp]:
  "tickOK P \<Longrightarrow> P (StatusWritten st m) \<Longrightarrow> extends P c0 c \<Longrightarrow> extends P c0 (updateStatus w st m c)"
  unfolding updateStatus_def by (intro cov_tick ext_writeStatus)

lemma cov_shutdownSandbox [simp]: "tickOK P \<Longrightarrow> extends P c0 c \<Longrightarrow> extends P c0 (shutdownSandbox w c)"
  by (simp add: shutdownSandbox_def)

lemma cov_fold_writeProgress [simp]:
  "tickOK P \<Longrightarrow> extends P c0 c \<Longrightarrow> extends P c0 (fold writeProgress ns c)"
  by (induction ns arbitrary: c) (simp_all add: ext_writeProgress tickOK_def)

lemma cov_isTaskStopped [simp]:
  "tickOK P \<Longrightarrow> extends P c0 c \<Longrightarrow> extends P c0 (snd (isTaskStopped w cp c))"
  by (simp add: isTaskStopped_def)

lemma cov_waitForBranchName [simp]:
  "covers P \<Longrightarrow> extends P c0 c \<Longrightarrow> extends P c0 (snd (waitForBranchName w mx c))"
  unfolding waitForBranchName_def by (rule ext_waitLoop) (auto simp: covers_def tickOK_def)

lemma cov_fetchConnectors [simp]:
  "tickOK P \<Longrightarrow> extends P c0 c \<Longrightarrow> extends P c0 (fetchConnectors w a c)"
  by (simp add: fetchConnectors_def Let_def split: outcome.splits)

lemma cov_detectPort [simp]:
  "tickOK P \<Longrightarrow> extends P c0 c \<Longrightarrow> extends P c0 (snd (detectPort w a c))"
  by (simp add: detectPort_def)

lemma cov_callCreateSandbox [simp]:
  "tickOK P \<Longrightarrow> P (CreateSandboxCalled (orElse b None)) \<Longrightarrow> extends P c0 c \<Longrightarrow>
   extends P c0 (snd (callCreateSandbox w b c))"
  by (simp add: callCreateSandbox_def ext_emit)

lemma cov_recordSandbox [simp]:
  assumes "tickOK P" "P (RowUpdated (if \<not> truthyOpt b then sbBranchName r else None))" "extends P c0 c"
  shows "extends P c0 (snd (recordSandbox w b r c))"
proof (cases "rowUpdateThrows w")
  case None
  have "extends P c0 (emit (RowUpdated (if \<not> truthyOpt b then sbBranchName r else None)) (c\<lparr>row := R\<rparr>))" for R
    using assms by (intro ext_emit) simp_all
  then show ?thesis
    using None assms(1) by (simp add: recordSandbox_def Let_def)
next
  case (Some e)
  then show ?thesis
    using assms by (simp add: recordSandbox_def Let_def)
qed

lemma cov_start [simp]:
  "tickOK P \<Longrightarrow> extends P c0 (writeStatus Processing ''Task created, preparing to start...'' c) \<Longrightarrow>
   extends P c0 (snd (processTask_start w a c))"
  by (simp add: processTask_start_def updateStatus_def Let_def split_beta bool.case_eq_if)

lemma cov_branch [simp]:
  "covers P \<Longrightarrow> extends P c0 c \<Longrightarrow> extends P c0 (snd (processTask_branch w c))"
  by (simp add: processTask_branch_def Let_def split_beta bool.case_eq_if)

lemma ext_sandbox:
  assumes "tickOK P" "P (CreateSandboxCalled (orElse aiBranchName None))"
    "truthyOpt aiBranchName \<Longrightarrow> P (RowUpdated None)"
    "\<not> truthyOpt aiBranchName \<Longrightarrow> \<forall>x. P (RowUpdated x)"
    "extends P c0 c"
  shows "extends P c0 (snd (snd (processTask_sandbox w a aiBranchName c)))"
proof -
  have "P (RowUpdated (if \<not> truthyOpt aiBranchName then sbBranchName r else None))" for r
    using assms(3,4) by simp
  then have R: "extends P c0 c' \<Longrightarrow> extends P c0 (snd (recordSandbox w aiBranchName r c'))" for r c'
    using assms(1) by (intro cov_recordSandbox)
  show ?thesis
    using assms(1,2,5) R
    by (simp add: processTask_sandbox_def Let_def split_beta bool.case_eq_if split: outcome.splits
             del: cov_recordSandbox)
qed

lemma cov_sandbox [simp]:
  "covers P \<Longrightarrow> extends P c0 c \<Longrightarrow> extends P c0 (snd (snd (processTask_sandbox w a aiBranchName c)))"
  by (rule ext_sandbox) (simp_all add: covers_def)

lemma cov_agent [simp]:
  "tickOK P \<Longrightarrow> extends P c0 c \<Longrightarrow> extends P c0 (snd (processTask_agent w a sb c))"
  by (simp add: processTask_agent_def Let_def split_beta bool.case_eq_if split: outcome.splits)

lemma cov_publish [simp]:
  "tickOK P \<Longrightarrow> pubOK P a \<Longrightarrow> extends P c0 c \<Longrightarrow> extends P c0 (snd (publish w a r fb c))"
  by (simp add: publish_def pubOK_def Let_def ext_emit split: outcome.splits if_splits)

lemma cov_finish [simp]:
  "tickOK P \<Longrightarrow> pubOK P a \<Longrightarrow> extends P c0 c \<Longrightarrow>
   extends P c0 (snd (processTask_finish w a sb br r c))"
  by (simp add: processTask_finish_def Let_def split_beta tickOK_D split: outcome.splits)

lemma cov_try [simp]:
  "covers P \<Longrightarrow> pubOK P a \<Longrightarrow>
   extends P c0 (writeStatus Processing ''Task created, preparing to start...'' c) \<Longrightarrow>
   extends P c0 (snd (snd (processTask_try w a c)))"
  by (simp add: processTask_try_def split_beta split: flow.splits)

lemma cov_catch [simp]:
  "tickOK P \<Longrightarrow> extends P c0 c \<Longrightarrow> extends P c0 (processTask_catch w e sb c)"
  by (simp add: processTask_catch_def Let_def tickOK_D)

lemma cov_processTask [simp]:
  "covers P \<Longrightarrow> pubOK P a \<Longrightarrow>
   extends P c0 (writeStatus Processing ''Task created, preparing to start...'' c) \<Longrightarrow>
   extends P c0 (processTask w a c)"
  by (simp add: processTask_def split_beta tickOK_D split: flow.splits)

lemma covers_lateOnly: "covers lateOnly"
  unfolding covers_def tickOK_def
proof (intro conjI allI impI)
  fix e assume "routine e"
  then show "lateOnly e" by (cases e) (simp_all add: terminal_def)
qed simp_all


lemma statusWrites_lateOnly: "list_all lateOnly es \<Longrightarrow> list_all terminal (statusWrites es)"
  by (induction es rule: statusWrites.induct) simp_all

lemma trace_startTimers [simp]: "trace (snd (startTimers a c)) = trace c"
  by (simp add: startTimers_def setTimeout_def Let_def)

lemma trace_pipelineSettles [simp]: "trace (pipelineSettles h c) = trace c"
  by (simp add: pipelineSettles_def clearTimeout_def split: race.splits)

lemma trace_processTaskWithTimeout:
  "\<exists>es. trace (processTaskWithTimeout w a c) =
          trace c @ StatusWritten Processing ''Task created, preparing to start...'' # es \<and>
        list_all lateOnly es"
proof -
  define c2 where "c2 = (snd (startTimers a c))\<lparr>race := Racing (fst (startTimers a c))\<rparr>"
  have t2: "trace c2 = trace c"
    by (simp add: c2_def)
  have "extends lateOnly (writeStatus Processing ''Task created, preparing to start...'' c2) (processTask w a c2)"
    by (rule cov_processTask) (simp_all add: covers_lateOnly pubOK_def)
  then obtain es where "trace (processTask w a c2) =
      trace c @ StatusWritten Processing ''Task created, preparing to start...'' # es" "list_all lateOnly es"
    by (auto simp: extends_def writeStatus_def emit_def t2)
  moreover have "trace (processTaskWithTimeout w a c) = trace (processTask w a c2)"
    by (simp add: processTaskWithTimeout_def split_beta c2_def)
  ultimately show ?thesis by auto
qed

lemma timeoutMessage_includes [simp]: "includes_str (timeoutMessage n) ''timed out after''"
proof -
  have "timeoutMessage n = ''Task execution '' @ ''timed out after'' @ ('' '' @ showNat n @ '' minutes'')"
    by (simp add: timeoutMessage_def)
  then show ?thesis
    by (simp only: includes_str_append)
qed

lemma set_padLeadingDash: "set (padLeadingDash b s) \<subseteq> insert 0x20 (set s)"
  by (induction s arbitrary: b) auto

lemma padLeadingDash_no_dash_start: "\<not> lineBeginsWithDash b (padLeadingDash b s)"
  by (induction s arbitrary: b) (auto simp: isLineTerminator_def)

subsection \<open>Runs without interference\<close>

lemma tickFor_calm: "timers c = [] \<Longrightarrow> tickFor d [] c = c\<lparr>now := now c + d\<rparr>"
  by (simp add: tickFor_def fireDue_def)

lemma tick_calm: "calm w \<Longrightarrow> timers c = [] \<Longrightarrow> tick w s c = c\<lparr>now := now c + fst (schedule w s)\<rparr>"
  by (simp add: tick_def calm_def tickFor_calm)

lemma sleep_calm:
  "calm w \<Longrightarrow> timers c = [] \<Longrightarrow> sleep w ms s c = c\<lparr>now := now c + (ms + fst (schedule w s))\<rparr>"
  by (simp add: sleep_def calm_def tickFor_calm)

declare tick_calm [simp] sleep_calm [simp]










declare tick_calm [simp del] sleep_calm [simp del]

subsection \<open>The branch-name wait\<close>





subsection \<open>Hex strings and the encrypted format\<close>

lemma hexVal_hexDigit: "n < 16 \<Longrightarrow> hexVal (hexDigit n) = Some n"
  by (auto simp: hexVal_def hexDigit_def Let_def)

lemma hexDigit_not_colon: "n < 16 \<Longrightarrow> hexDigit n \<noteq> CHR '':''"
proof
  assume n: "n < 16" and e: "hexDigit n = CHR '':''"
  from e have "(of_char (hexDigit n) :: nat) = of_char CHR '':''" by simp
  with n show False by (auto simp: hexDigit_def split: if_splits)
qed

lemma unat_nibbles: "unat (b :: 8 word) div 16 < 16" "unat b mod 16 < 16"
  using unsigned_less[of b, where ?'a = nat] by auto

lemma fromHex_toHex [simp]: "fromHex (toHex bs) = bs"
proof (induction bs)
  case Nil
  then show ?case by simp
next
  case (Cons b bs)
  have "word_of_nat (16 * (unat b div 16) + unat b mod 16) = b"
    by simp
  with Cons show ?case
    by (simp add: hexVal_hexDigit unat_nibbles)
qed

lemma colon_not_hexDigit: "n < 16 \<Longrightarrow> CHR '':'' \<noteq> hexDigit n"
  using hexDigit_not_colon by fastforce

lemma colon_not_in_toHex [simp]: "CHR '':'' \<notin> set (toHex bs)"
  by (induction bs) (simp_all add: colon_not_hexDigit unat_nibbles)




subsection \<open>Evaluating a concrete run\<close>

lemma quietWorld_sel [simp]:
  "schedule quietWorld = (\<lambda>s. (0, []))" "readThrows quietWorld = (\<lambda>s. None)"
  "detectPortFromRepo quietWorld = Returns 3000"
  "createSandbox quietWorld = Returns \<lparr>success = True, sandbox = Some ''sbx_1'', domain = Some ''https://sbx'',
        sbBranchName = Some ''agent/fallback-1'', cancelled = False, sbError = None\<rparr>"
  "createSandboxProgress quietWorld = [20, 40]"
  "rowUpdateThrows quietWorld = None" "connectors quietWorld = Returns 0"
  "executeAgentInSandbox quietWorld = Returns \<lparr>agSuccess = True, agError = None, agOutput = None, agentResponse = None\<rparr>"
  "generateCommitMessage quietWorld = Returns ''feat: change''"
  "createFallbackCommitMessage quietWorld = (\<lambda>d. ''chore: update'')"
  "pushChangesToBranch quietWorld = Returns \<lparr>pushSuccess = True, pushFailed = False\<rparr>"
  by (simp_all add: quietWorld_def)

lemma repoArgs_sel [simp]:
  "taskId repoArgs = ''T1''" "prompt repoArgs = [0x68, 0x69]" "repoUrl repoArgs = ''https://github.com/o/r''"
  "maxDuration repoArgs = 5" "selectedAgent repoArgs = ''claude''" "keepAlive repoArgs = False"
  "githubToken repoArgs = Some ''tok''" "argUserId repoArgs = Some ''u1''"
  by (simp_all add: repoArgs_def)

lemma waitLoop_done: "\<not> now c - startTime < maxWaitMs \<Longrightarrow> waitLoop w startTime maxWaitMs i c = (None, c)"
  by (subst waitLoop.simps) simp

lemma waitLoop_found:
  "now c - startTime < maxWaitMs \<Longrightarrow> readThrows w (DuringPoll i) = None \<Longrightarrow>
   truthyOpt (branchName (row c)) \<Longrightarrow>
   waitLoop w startTime maxWaitMs i c =
     (branchName (row c), tick w (DuringPoll i) (emit (BranchNamePolled i) c))"
  by (subst waitLoop.simps) (auto simp: db_select_def Let_def truthyOpt_def split: option.splits)

lemma waitLoop_miss:
  "now c - startTime < maxWaitMs \<Longrightarrow>
   readThrows w (DuringPoll i) \<noteq> None \<or> \<not> truthyOpt (branchName (row c)) \<Longrightarrow>
   waitLoop w startTime maxWaitMs i c =
     waitLoop w startTime maxWaitMs (Suc i)
       (sleep w 500 (DuringSleep i) (tick w (DuringPoll i) (emit (BranchNamePolled i) c)))"
  by (subst waitLoop.simps) (auto simp: db_select_def Let_def truthyOpt_def split: option.splits)

lemmas eval_prims = tick_def sleep_def tickFor_def fireDue_def runCallback_def timeoutCatch_def
  clearTimeout_def setTimeout_def applyWrite_def writeStatus_def writeProgress_def logI_def emit_def
  updateStatus_def updateProgress_def isTaskStopped_def db_select_def shutdownSandbox_def
  truthy_def truthyOpt_def orElse_def orDefault_def Let_def
  waitForBranchName_def waitLoop_done waitLoop_found waitLoop_miss
  startConfig_def pendingTask_def newEvents_def drainTimers_def startTimers_def

lemmas eval_congs = prod.case_cong_weak outcome.case_cong_weak flow.case_cong_weak option.case_cong_weak
  bool.case_cong_weak let_weak_cong race.case_cong_weak callback.case_cong_weak thrown.case_cong_weak
  ext_write.case_cong_weak list.case_cong_weak

lemma quiet_run:
  "processTaskWithTimeout quietWorld repoArgs (startConfig pendingTask) =
   \<lparr>row = \<lparr>userId = ''u1'', status = Completed, progress = 100, branchName = Some ''ai/name'',
            error = None, sandboxId = Some ''sbx_1'', sandboxUrl = Some ''https://sbx''\<rparr>,
    now = 0,
    timers = [Timer 1 300000 (RejectCallback (timeoutMessage 5))],
    nextHandle = 2, race = Settled,
    trace =
      [StatusWritten Processing ''Task created, preparing to start...'',
       ProgressWritten 10, InsertMessageCalled,
       Log ''Using authenticated GitHub access'',
       Log ''API keys configured for selected agent'', BranchNamePolled 0,
       Log ''Using AI-generated branch name'', ProgressWritten 15,
       DetectPortCalled, CreateSandboxCalled (Some ''ai/name''),
       ProgressWritten 20, ProgressWritten 40, RowUpdated None,
       ProgressWritten 50, FetchConnectorsCalled,
       ExecuteAgentCalled (sanitizePrompt [0x68, 0x69]), Log ''Agent completed work'',
       ProgressWritten 90, GenerateCommitMessageCalled,
       PushChangesCalled ''ai/name'' ''feat: change'',
       Log ''Changes pushed to branch'', ProgressWritten 100,
       StatusWritten Completed ''Task completed successfully'',
       Log ''Shutting down sandbox'', ShutdownSandboxCalled,
       ProcessTaskReturned]\<rparr>"
  apply (simp add: processTaskWithTimeout_def processTask_def processTask_try_def processTask_start_def
      eval_prims cong: eval_congs)
  apply (simp add: processTask_branch_def eval_prims cong: eval_congs)
  apply (simp add: processTask_sandbox_def detectPort_def callCreateSandbox_def recordSandbox_def
      eval_prims cong: eval_congs)
  apply (simp add: processTask_agent_def fetchConnectors_def eval_prims cong: eval_congs)
  apply (simp add: processTask_finish_def publish_def eval_prims cong: eval_congs)
  apply (simp add: pipelineSettles_def eval_prims cong: eval_congs)
  done

section \<open>The claims\<close>

subsection \<open>C1: a stop is not overwritten\<close>

text \<open>
  Claim C1. Once the external stop request has written \<open>stopped\<close>, no later write of the
  pipeline changes the status, even if an in-flight call (sandbox creation, agent
  execution) later throws. The code does not do that: the \<open>catch\<close> block of
  \<open>processTask\<close> writes \<open>error\<close> without a cancellation check. In the run below the
  stop request lands while the agent call is in flight and the call then rejects; the
  statuses persisted are \<open>processing\<close>, \<open>stopped\<close>, \<open>error\<close>.
\<close>

theorem stop_during_agent_ends_in_error:
  "(let c = processTaskWithTimeout stopDuringAgent repoArgs (startConfig pendingTask)
    in (statusWrites (trace c), status (row c), error (row c))) =
   ([Processing, Stopped, Error], Error, Some ''sandbox connection lost'')"
  unfolding stopDuringAgent_def
  apply (simp add: processTaskWithTimeout_def processTask_def processTask_try_def processTask_start_def
      eval_prims cong: eval_congs)
  apply (simp add: processTask_branch_def eval_prims cong: eval_congs)
  apply (simp add: processTask_sandbox_def detectPort_def callCreateSandbox_def recordSandbox_def
      eval_prims cong: eval_congs)
  apply (simp add: processTask_agent_def fetchConnectors_def eval_prims cong: eval_congs)
  apply (simp add: processTask_catch_def genericErrorMessage_def eval_prims cong: eval_congs)
  apply (simp add: pipelineSettles_def eval_prims cong: eval_congs)
  done

text \<open>The same happens when the stop lands during sandbox creation and creation then
  reports a plain failure (lines 403 to 408 check only the \<open>cancelled\<close> flag).\<close>

lemma stop_during_creation_ends_in_error:
  "(let c = processTaskWithTimeout stopDuringCreation repoArgs (startConfig pendingTask)
    in (statusWrites (trace c), status (row c), error (row c))) =
   ([Processing, Stopped, Error], Error, Some ''Sandbox health check failed'')"
  unfolding stopDuringCreation_def
  apply (simp add: processTaskWithTimeout_def processTask_def processTask_try_def processTask_start_def
      eval_prims cong: eval_congs)
  apply (simp add: processTask_branch_def eval_prims cong: eval_congs)
  apply (simp add: processTask_sandbox_def detectPort_def callCreateSandbox_def recordSandbox_def
      eval_prims cong: eval_congs)
  apply (simp add: processTask_catch_def genericErrorMessage_def eval_prims cong: eval_congs)
  apply (simp add: pipelineSettles_def eval_prims cong: eval_congs)
  done

subsection \<open>C2: the order of persisted statuses\<close>

text \<open>
  Claim C2, as stated, fails: a terminal status can be replaced by another one. In the
  run below the deadline fires while the agent call is in flight and \<open>error\<close> is
  written; the pipeline is not stopped by that, the agent call returns, and
  \<open>completed\<close> is written over the \<open>error\<close>.
\<close>

theorem deadline_error_overwritten_by_completed:
  "(let c = processTaskWithTimeout slowAgent repoArgs (startConfig pendingTask)
    in (statusWrites (trace c), status (row c))) =
   ([Processing, Error, Completed], Completed)"
  unfolding slowAgent_def
  apply (simp add: processTaskWithTimeout_def processTask_def processTask_try_def processTask_start_def
      eval_prims cong: eval_congs)
  apply (simp add: processTask_branch_def eval_prims cong: eval_congs)
  apply (simp add: processTask_sandbox_def detectPort_def callCreateSandbox_def recordSandbox_def
      eval_prims cong: eval_congs)
  apply (simp add: processTask_agent_def fetchConnectors_def eval_prims cong: eval_congs)
  apply (simp add: processTask_finish_def publish_def eval_prims cong: eval_congs)
  apply (simp add: pipelineSettles_def eval_prims cong: eval_congs)
  done

text \<open>
  Claim C2, amended. In every run, whatever the collaborators return and whenever stop
  requests and the deadline arrive, the first status the run persists is \<open>processing\<close>
  and every status persisted after it is terminal (\<open>completed\<close>, \<open>error\<close> or
  \<open>stopped\<close>): a task never comes back to \<open>pending\<close> or \<open>processing\<close>.
\<close>

theorem status_writes_after_processing_are_terminal:
  "\<exists>hs. statusWrites (newEvents c (processTaskWithTimeout w a c)) = Processing # hs \<and> list_all terminal hs"
proof -
  obtain es where "trace (processTaskWithTimeout w a c) =
          trace c @ StatusWritten Processing ''Task created, preparing to start...'' # es"
      "list_all lateOnly es"
    using trace_processTaskWithTimeout by blast
  then show ?thesis
    by (auto simp: newEvents_def statusWrites_lateOnly)
qed

subsection \<open>C3: the timers of the race\<close>

text \<open>
  Claim C3. Both timers of \<open>processTaskWithTimeout\<close> are cancelled on every exit path, so
  none fires after the pipeline has finished. The code clears the warning timer only. In
  the run below the pipeline finishes at once; afterwards the deadline timer is still
  scheduled for minute five, and when the event loop reaches it, it fires (its rejection
  finds the race settled and changes nothing in the row).
\<close>

theorem deadline_timer_fires_after_the_run:
  "(let c = processTaskWithTimeout quietWorld repoArgs (startConfig pendingTask)
    in (last (trace c), race c, timers c, newEvents c (drainTimers c), row (drainTimers c) = row c)) =
   (ProcessTaskReturned, Settled, [Timer 1 300000 (RejectCallback (timeoutMessage 5))],
    [TimerFired (RejectCallback (timeoutMessage 5))], True)"
  by (simp add: quiet_run drainTimers_def fireDue_def runCallback_def newEvents_def emit_def Let_def)

subsection \<open>C4: the deadline's error\<close>

text \<open>
  Claim C4. For every budget of \<open>n\<close> minutes: when the deadline timer fires while the
  race is open (the pipeline has not returned), the status becomes \<open>error\<close> with the
  timeout text, the race is settled, and that text differs from the message the pipeline
  writes for a thrown value that is not an \<open>Error\<close> and from the messages of the
  errors \<open>processTask\<close> raises itself.
\<close>

theorem deadline_sets_timeout_error:
  assumes "race c = Racing wh"
  shows "row (runCallback (Timer h d (RejectCallback (timeoutMessage n))) c) =
           (row c)\<lparr>status := Error,
                    error := Some ''Task execution timed out. The operation took too long to complete.''\<rparr> \<and>
         race (runCallback (Timer h d (RejectCallback (timeoutMessage n))) c) = Settled \<and>
         ''Task execution timed out. The operation took too long to complete.'' \<notin>
           {genericErrorMessage NonError, orDefault None ''Failed to create sandbox'',
            ''Sandbox is not available for agent execution'', orDefault None ''Agent execution failed''}"
  using assms
  by (simp add: runCallback_def timeoutCatch_def clearTimeout_def writeStatus_def logI_def emit_def
        Let_def genericErrorMessage_def orDefault_def)

theorem deadline_sets_timeout_error_witness:
  "race ((startConfig pendingTask)\<lparr>race := Racing 0\<rparr>) = Racing 0 \<and>
   status (row (runCallback (Timer 1 300000 (RejectCallback (timeoutMessage 5)))
                  ((startConfig pendingTask)\<lparr>race := Racing 0\<rparr>))) = Error \<and>
   error (row (runCallback (Timer 1 300000 (RejectCallback (timeoutMessage 5)))
                 ((startConfig pendingTask)\<lparr>race := Racing 0\<rparr>))) =
     Some ''Task execution timed out. The operation took too long to complete.''"
  using deadline_sets_timeout_error [of "(startConfig pendingTask)\<lparr>race := Racing 0\<rparr>" 0 1 300000 5]
  by (simp add: startConfig_def)

subsection \<open>C5: the branch-name wait and the fallback name\<close>



subsection \<open>C6: the Trigger Endpoint starts pending tasks only\<close>

text \<open>
  Claim C6. For a task that the store returns: the request is accepted (status 200, the
  pipeline scheduled) only when the task's status is \<open>pending\<close>; and when the status is
  anything else, a request that passes the authorization and ownership checks (lines 52
  and 64, which answer 401 first) is rejected with status 400 and nothing is scheduled.
\<close>

theorem start_request_needs_pending:
  assumes "fetchTask sv = Returns (Some t)"
  shows "(scheduled (POST sv rq) \<or> code (POST sv rq) = 200 \<longrightarrow> status t = Pending) \<and>
         (status t \<noteq> Pending \<longrightarrow> \<not> scheduled (POST sv rq)) \<and>
         (status t \<noteq> Pending \<and> authorizedFor sv rq t \<longrightarrow> POST sv rq = Response 400 False)"
  using assms
  by (auto simp: POST_def authorizedFor_def split: outcome.splits option.splits)

theorem start_request_needs_pending_witness:
  "fetchTask (serverWith (pendingTask\<lparr>status := Processing\<rparr>)) =
     Returns (Some (pendingTask\<lparr>status := Processing\<rparr>)) \<and>
   status (pendingTask\<lparr>status := Processing\<rparr>) \<noteq> Pending \<and>
   authorizedFor (serverWith (pendingTask\<lparr>status := Processing\<rparr>)) ownerRequest
     (pendingTask\<lparr>status := Processing\<rparr>) \<and>
   POST (serverWith (pendingTask\<lparr>status := Processing\<rparr>)) ownerRequest = Response 400 False"
  using start_request_needs_pending
    [of "serverWith (pendingTask\<lparr>status := Processing\<rparr>)" "pendingTask\<lparr>status := Processing\<rparr>" ownerRequest]
  by (simp add: serverWith_def ownerRequest_def pendingTask_def authorizedFor_def verifyInternalCall_def
        truthyOpt_def truthy_def)

subsection \<open>C7: tasks without a repository or a token\<close>



subsection \<open>C8: the sanitized prompt\<close>

text \<open>
  Claim C8. For every prompt, the sanitized prompt handed to the agent holds no backtick
  (U+0060), no dollar sign (U+0024), no backslash (U+005C), and none of its lines begins
  with a hyphen (U+002D).
\<close>

theorem sanitizePrompt_strips_shell_characters:
  "0x60 \<notin> set (sanitizePrompt p) \<and> 0x24 \<notin> set (sanitizePrompt p) \<and>
   0x5C \<notin> set (sanitizePrompt p) \<and> \<not> lineBeginsWithDash True (sanitizePrompt p)"
proof -
  let ?q = "removeChar 0x5C (removeChar 0x24 (replaceBackticks p))"
  have q: "0x60 \<notin> set ?q" "0x24 \<notin> set ?q" "0x5C \<notin> set ?q"
    by (auto simp: removeChar_def replaceBackticks_def)
  have "set (sanitizePrompt p) \<subseteq> insert 0x20 (set ?q)"
    unfolding sanitizePrompt_def by (rule set_padLeadingDash)
  with q have "0x60 \<notin> set (sanitizePrompt p)" "0x24 \<notin> set (sanitizePrompt p)"
    "0x5C \<notin> set (sanitizePrompt p)"
    by auto
  moreover have "\<not> lineBeginsWithDash True (sanitizePrompt p)"
    unfolding sanitizePrompt_def by (rule padLeadingDash_no_dash_start)
  ultimately show ?thesis by simp
qed

subsection \<open>C9: decrypt inverts encrypt\<close>



subsection \<open>C10: a failed read at a checkpoint\<close>

text \<open>
  Claim C10. If the read of the task inside the cancellation check throws,
  \<open>isTaskStopped\<close> answers false, whatever the row holds, and the pipeline goes on past
  the checkpoint: the first two checkpoints hand over to the next step instead of
  returning.
\<close>

theorem read_failure_means_not_stopped:
  assumes "readThrows w (DuringStopCheck cp) = Some e"
  shows "fst (isTaskStopped w cp c) = False \<and>
         (cp = BeforeExecution \<longrightarrow> fst (processTask_start w a c) = Next ()) \<and>
         (cp = AfterBranchWait \<longrightarrow>
            fst (processTask_branch w c) = Next (fst (waitForBranchName w 10000 c)))"
  using assms
  by (cases cp)
     (simp_all add: isTaskStopped_def db_select_def processTask_start_def processTask_branch_def Let_def
        split_beta)

theorem read_failure_means_not_stopped_witness:
  "readThrows stoppedButUnreadable (DuringStopCheck BeforeExecution) = Some (ErrorObj ''connection refused'') \<and>
   status (row (snd (processTask_start stoppedButUnreadable repoArgs (startConfig pendingTask)))) = Stopped \<and>
   fst (isTaskStopped stoppedButUnreadable BeforeExecution (startConfig pendingTask)) = False \<and>
   fst (processTask_start stoppedButUnreadable repoArgs (startConfig pendingTask)) = Next ()"
proof -
  have r: "readThrows stoppedButUnreadable (DuringStopCheck BeforeExecution) = Some (ErrorObj ''connection refused'')"
    by (simp add: stoppedButUnreadable_def)
  have s: "status (row (snd (processTask_start stoppedButUnreadable repoArgs (startConfig pendingTask)))) = Stopped"
    unfolding stoppedButUnreadable_def
    by (simp add: processTask_start_def eval_prims cong: eval_congs)
  from read_failure_means_not_stopped [OF r, of "startConfig pendingTask" repoArgs] r s
  show ?thesis by simp
qed

end
